theory Spec2Isabelle
  imports Complex_Main "HOL-Library.AList" "HOL-Library.Log_Nat"
begin

section \<open>The knowledge archive of the agentic memory\<close>

text \<open>
  A shallow embedding of \<^verbatim>\<open>autogen_ext/agentic_memory/_knowledge_archive.py\<close>:
  the class \<^verbatim>\<open>KnowledgeArchive\<close> with its constructor, \<^verbatim>\<open>save_archive\<close>,
  \<^verbatim>\<open>add_insight\<close>, \<^verbatim>\<open>get_relevant_insights\<close> and \<^verbatim>\<open>add_demonstration\<close>.

  Conventions of the embedding.
  \<^item> A method is a function from the state before the call to a pair of an outcome and
    the state after it. The outcome is \<open>Inl e\<close> when the method raises \<open>e\<close>, and
    the state returned with it is the state the exception leaves behind.
  \<^item> A Python \<^verbatim>\<open>dict\<close> is an association list in insertion order with distinct keys:
    \<^verbatim>\<open>d[k] = v\<close> is \<open>AList.update k v d\<close> (an old key keeps its place, a new one goes to
    the end), \<^verbatim>\<open>d[k]\<close> is \<open>map_of d k\<close> with \<open>None\<close> the \<^verbatim>\<open>KeyError\<close>, \<^verbatim>\<open>del d[k]\<close> is
    \<open>AList.delete k d\<close>, \<^verbatim>\<open>len(d)\<close> is \<open>length d\<close>, \<^verbatim>\<open>list(d.keys())\<close> is \<open>map fst d\<close>.
  \<^item> \<^verbatim>\<open>Optional[T]\<close> is \<open>T option\<close>; Python's unbounded \<^verbatim>\<open>int\<close> is \<open>int\<close>.
  \<^item> Python's \<^verbatim>\<open>float\<close> is an arbitrary type \<open>'f\<close>, and the float operations the
    archive uses are parameters of the model: nothing is assumed of them, so what is proved
    holds for the interpreter's arithmetic with its rounding, infinities and NaN. IEEE
    binary64 with rounding to nearest, ties to even, is given as an instance.
  \<^item> The page logger only receives text and returns nothing the archive reads; its calls
    are left out, and a logger is taken to have been supplied.
\<close>

subsection \<open>Data\<close>

datatype error =
    AssertionError string
  | KeyError string
  | IndexError
  | ValueError
  | UnpicklingError

text \<open>The dataclass \<^verbatim>\<open>Insight\<close>; its field \<^verbatim>\<open>id\<close> is \<open>insight_id\<close> here.\<close>

record Insight =
  insight_id :: string
  insight_str :: string
  task_str :: "string option"
  topics :: "string list"

type_synonym uid_dict = "(string \<times> Insight) list"

type_synonym 'f relevance_dict = "(string \<times> 'f) list"

text \<open>A match of the similarity index, a tuple \<^verbatim>\<open>(topic, insight, distance)\<close>.\<close>

type_synonym 'f match = "string \<times> string \<times> 'f"

subsection \<open>The collaborators\<close>

text \<open>
  Modelled from the spec: the class \<^verbatim>\<open>MemoStore\<close> of \<^verbatim>\<open>_memo_store.py\<close>, whose source
  is not part of this development. The spec gives its interface (the SimilarityIndex contract):
  \<^verbatim>\<open>add(key, value)\<close> records an association, \<^verbatim>\<open>query(key, topK, maxCandidates)\<close> answers
  with a sequence of \<^verbatim>\<open>(matchedKey, value, distance)\<close>, \<^verbatim>\<open>persist()\<close> flushes. Nothing more is
  assumed: the store is a value of an arbitrary type \<open>'c\<close> (its index contents together
  with its own files), and each method is an arbitrary function supplied as a parameter.
  So that a claim about the index contents can be stated at all, the query hands back the
  store as it leaves it.

  The record also holds what the archive takes from the Python library, the interpreter
  and the operating system: \<^verbatim>\<open>os.path.expanduser\<close>, which depends on the environment;
  \<^verbatim>\<open>pickle\<close>, whose byte format is \<open>'b\<close>; and the arithmetic of \<^verbatim>\<open>float\<close>, whose values
  are \<open>'f\<close>: the value of the literal \<^verbatim>\<open>1.7\<close>, the operators \<^verbatim>\<open>-\<close> and \<^verbatim>\<open>+\<close> on two
  floats, and the comparison \<^verbatim>\<open>x < 0\<close> of a float with the integer zero.
\<close>

record ('c, 'b, 'f) collaborators =
  expanduser :: "string \<Rightarrow> string"
  MemoStore_init :: "bool \<Rightarrow> string \<Rightarrow> 'c \<Rightarrow> 'c"
  add_input_output_pair :: "string \<Rightarrow> string \<Rightarrow> 'c \<Rightarrow> 'c"
  get_related_memos :: "string \<Rightarrow> int \<Rightarrow> int \<Rightarrow> 'c \<Rightarrow> 'f match list \<times> 'c"
  save_memos :: "'c \<Rightarrow> 'c"
  pickle_dump :: "uid_dict \<Rightarrow> 'b"
  pickle_load :: "'b \<Rightarrow> error + uid_dict"
  float_1_7 :: 'f
  float_sub :: "'f \<Rightarrow> 'f \<Rightarrow> 'f"
  float_add :: "'f \<Rightarrow> 'f \<Rightarrow> 'f"
  float_lt_0 :: "'f \<Rightarrow> bool"

subsection \<open>The state of an archive\<close>

text \<open>
  The attributes of a \<^verbatim>\<open>KnowledgeArchive\<close> object, and with them the snapshot files it
  reads and writes: \<open>disk p\<close> is the content of the file at path \<open>p\<close>, or \<open>None\<close>
  when \<^verbatim>\<open>os.path.exists(p)\<close> is false.
\<close>

record ('c, 'b) KnowledgeArchive =
  path_to_dict :: string
  memo_store :: 'c
  uid_insight_dict :: uid_dict
  last_insight_id :: int
  disk :: "string \<Rightarrow> 'b option"

subsection \<open>Library functions of Python\<close>

text \<open>\<^verbatim>\<open>str(n)\<close> on an \<^verbatim>\<open>int\<close>: the decimal numeral, with a minus sign when negative.\<close>

fun str_nat :: "nat \<Rightarrow> string" where
  "str_nat n =
     (if n < 10 then [''0123456789'' ! n]
      else str_nat (n div 10) @ [''0123456789'' ! (n mod 10)])"

declare str_nat.simps [simp del]

definition str_int :: "int \<Rightarrow> string" where
  "str_int i = (if i < 0 then CHR ''-'' # str_nat (nat (- i)) else str_nat (nat i))"

text \<open>
  \<^verbatim>\<open>os.path.join\<close> of \<^verbatim>\<open>posixpath\<close>: a component that starts with the separator
  replaces what came before it; otherwise it is appended, after a separator unless the
  path so far is empty or ends with one.
\<close>

definition join_component :: "string \<Rightarrow> string \<Rightarrow> string" where
  "join_component path b =
     (if b \<noteq> [] \<and> hd b = CHR ''/'' then b
      else if path = [] \<or> last path = CHR ''/'' then path @ b
      else path @ ''/'' @ b)"

definition os_path_join :: "string \<Rightarrow> string list \<Rightarrow> string" where
  "os_path_join a p = foldl join_component a p"

text \<open>
  \<^verbatim>\<open>template.format(*args)\<close> for the templates the source uses: literal text and
  automatically numbered replacement fields \<^verbatim>\<open>{}\<close>. Each field takes the next argument,
  which is inserted as it is and not scanned again; a field with no argument left raises
  \<^verbatim>\<open>IndexError\<close>. Any other use of a brace is outside this fragment and is
  \<^verbatim>\<open>ValueError\<close> here.
\<close>

fun format_str :: "string \<Rightarrow> string list \<Rightarrow> error + string" where
  "format_str [] args = Inr []"
| "format_str (c # cs) args =
     (if c = CHR ''{'' then
        (case cs of
           [] \<Rightarrow> Inl ValueError
         | c' # cs' \<Rightarrow>
             if c' = CHR ''}'' then
               (case args of
                  [] \<Rightarrow> Inl IndexError
                | a # as \<Rightarrow>
                    (case format_str cs' as of
                       Inl e \<Rightarrow> Inl e
                     | Inr r \<Rightarrow> Inr (a @ r)))
             else Inl ValueError)
      else if c = CHR ''}'' then Inl ValueError
      else (case format_str cs args of
              Inl e \<Rightarrow> Inl e
            | Inr r \<Rightarrow> Inr (c # r)))"

subsection \<open>Construction and persistence\<close>

text \<open>
  \<^verbatim>\<open>KnowledgeArchive.__init__\<close>. The arguments \<open>c\<close> and \<open>fs\<close> are what the new object
  finds: the similarity store's world and the files on disk. \<^verbatim>\<open>reset\<close> is optional in the
  source and only tested for truth, so it is a \<open>bool\<close>; \<^verbatim>\<open>verbosity\<close> only controls
  printing.
\<close>

definition dict_path :: "('c, 'b, 'f) collaborators \<Rightarrow> string \<Rightarrow> string \<Rightarrow> string" where
  "dict_path ops memory_dir run_subdir =
     os_path_join (expanduser ops memory_dir) [run_subdir, ''uid_insight_dict.pkl'']"

definition db_dir_path :: "('c, 'b, 'f) collaborators \<Rightarrow> string \<Rightarrow> string \<Rightarrow> string" where
  "db_dir_path ops memory_dir run_subdir =
     os_path_join (expanduser ops memory_dir) [run_subdir, ''memo_store'']"

definition KnowledgeArchive_init ::
  "('c, 'b, 'f) collaborators \<Rightarrow> bool \<Rightarrow> string \<Rightarrow> string \<Rightarrow> 'c \<Rightarrow> (string \<Rightarrow> 'b option)
     \<Rightarrow> error + ('c, 'b) KnowledgeArchive" where
  "KnowledgeArchive_init ops reset memory_dir run_subdir c fs =
     (let path_to_db_dir = db_dir_path ops memory_dir run_subdir;
          p = dict_path ops memory_dir run_subdir;
          self = \<lparr>path_to_dict = p,
                  memo_store = MemoStore_init ops reset path_to_db_dir c,
                  uid_insight_dict = [],
                  last_insight_id = 0,
                  disk = fs\<rparr>
      in if \<not> reset \<and> fs p \<noteq> None then
           (case pickle_load ops (the (fs p)) of
              Inl e \<Rightarrow> Inl e
            | Inr d \<Rightarrow> Inr (self\<lparr>uid_insight_dict := d, last_insight_id := int (length d)\<rparr>))
         else Inr self)"

definition save_archive :: "('c, 'b, 'f) collaborators \<Rightarrow> ('c, 'b) KnowledgeArchive \<Rightarrow> ('c, 'b) KnowledgeArchive" where
  "save_archive ops s =
     (let s1 = s\<lparr>memo_store := save_memos ops (memo_store s)\<rparr>
      in s1\<lparr>disk := (disk s1)(path_to_dict s1 \<mapsto> pickle_dump ops (uid_insight_dict s1))\<rparr>)"

subsection \<open>Adding insights\<close>

text \<open>The loop \<^verbatim>\<open>for topic in topics: self.memo_store.add_input_output_pair(topic, id_str)\<close>.\<close>

fun index_topics :: "('c, 'b, 'f) collaborators \<Rightarrow> string list \<Rightarrow> string \<Rightarrow> 'c \<Rightarrow> 'c" where
  "index_topics ops [] id_str c = c"
| "index_topics ops (topic # rest) id_str c =
     index_topics ops rest id_str (add_input_output_pair ops topic id_str c)"

definition store_insight ::
  "('c, 'b, 'f) collaborators \<Rightarrow> string \<Rightarrow> Insight \<Rightarrow> ('c, 'b) KnowledgeArchive \<Rightarrow> ('c, 'b) KnowledgeArchive" where
  "store_insight ops id_str insight s =
     (let s1 = s\<lparr>memo_store := index_topics ops (topics insight) id_str (memo_store s)\<rparr>;
          s2 = s1\<lparr>uid_insight_dict := AList.update id_str insight (uid_insight_dict s1)\<rparr>
      in save_archive ops s2)"

text \<open>
  \<open>store_insight\<close> is the tail that \<^verbatim>\<open>add_insight\<close> and \<^verbatim>\<open>add_demonstration\<close> have in
  common, line for line: the topic loop, the assignment
  \<^verbatim>\<open>self.uid_insight_dict[str(id_str)] = insight\<close> (\<^verbatim>\<open>str\<close> of a string is that string) and
  \<^verbatim>\<open>self.save_archive()\<close>.
\<close>

definition add_insight ::
  "('c, 'b, 'f) collaborators \<Rightarrow> string \<Rightarrow> string option \<Rightarrow> string list option
     \<Rightarrow> ('c, 'b) KnowledgeArchive \<Rightarrow> (error + unit) \<times> ('c, 'b) KnowledgeArchive" where
  "add_insight ops insight_text task topic_list s =
     (case topic_list of
        None \<Rightarrow> (Inl (AssertionError ''For now, the topics list must be provided.''), s)
      | Some tps \<Rightarrow>
          (let s1 = s\<lparr>last_insight_id := last_insight_id s + 1\<rparr>;
               id_str = str_int (last_insight_id s1);
               insight = \<lparr>insight_id = id_str, insight_str = insight_text,
                          task_str = task, topics = tps\<rparr>
           in (Inr (), store_insight ops id_str insight s1)))"

text \<open>
  \<^verbatim>\<open>add_demonstration\<close> has no assertion, and its \<^verbatim>\<open>topics\<close> is a \<^verbatim>\<open>List[str]\<close>, not
  optional. The counter is incremented before the template is formatted, so an exception
  of \<^verbatim>\<open>format\<close> would leave it incremented.
\<close>

definition demonstration_template :: string where
  "demonstration_template =
     ''Example task:\<newline>\<newline>{}\<newline>Example solution:\<newline>\<newline>{}''"

definition add_demonstration ::
  "('c, 'b, 'f) collaborators \<Rightarrow> string \<Rightarrow> string \<Rightarrow> string list
     \<Rightarrow> ('c, 'b) KnowledgeArchive \<Rightarrow> (error + unit) \<times> ('c, 'b) KnowledgeArchive" where
  "add_demonstration ops task demonstration topic_list s =
     (let s1 = s\<lparr>last_insight_id := last_insight_id s + 1\<rparr>;
          id_str = str_int (last_insight_id s1)
      in case format_str demonstration_template [task, demonstration] of
           Inl e \<Rightarrow> (Inl e, s1)
         | Inr text \<Rightarrow>
             (let insight = \<lparr>insight_id = id_str, insight_str = text,
                             task_str = Some task, topics = topic_list\<rparr>
              in (Inr (), store_insight ops id_str insight s1)))"

subsection \<open>Retrieval\<close>

text \<open>
  The first loop of \<^verbatim>\<open>get_relevant_insights\<close>:
  \<^verbatim>\<open>for topic in topics: matches.extend(self.memo_store.get_related_memos(topic, 25, 100))\<close>.
\<close>

fun collect_matches ::
  "('c, 'b, 'f) collaborators \<Rightarrow> string list \<Rightarrow> 'f match list \<Rightarrow> 'c \<Rightarrow> 'f match list \<times> 'c" where
  "collect_matches ops [] matches c = (matches, c)"
| "collect_matches ops (topic # rest) matches c =
     (case get_related_memos ops topic 25 100 c of
        (found, c') \<Rightarrow> collect_matches ops rest (matches @ found) c')"

text \<open>The local \<^verbatim>\<open>relevance_conversion_threshold = 1.7\<close>: the float that the literal denotes.\<close>

definition relevance_conversion_threshold :: "('c, 'b, 'f) collaborators \<Rightarrow> 'f" where
  "relevance_conversion_threshold ops = float_1_7 ops"

text \<open>
  The second loop, over the matches. The lookup \<^verbatim>\<open>self.uid_insight_dict[insight_id]\<close> is
  not guarded: a missing id raises \<^verbatim>\<open>KeyError\<close> and ends the call. The subtraction and
  the addition are the interpreter's, on floats.
\<close>

fun aggregate ::
  "('c, 'b, 'f) collaborators \<Rightarrow> uid_dict \<Rightarrow> 'f match list \<Rightarrow> 'f relevance_dict
     \<Rightarrow> error + 'f relevance_dict" where
  "aggregate ops uid [] insight_relevance_dict = Inr insight_relevance_dict"
| "aggregate ops uid (m # rest) insight_relevance_dict =
     (let relevance = float_sub ops (relevance_conversion_threshold ops) (snd (snd m));
          mid = fst (snd m)
      in case map_of uid mid of
           None \<Rightarrow> Inl (KeyError mid)
         | Some insight \<Rightarrow>
             (let text = insight_str insight
              in case map_of insight_relevance_dict text of
                   Some r \<Rightarrow>
                     aggregate ops uid rest
                       (AList.update text (float_add ops r relevance) insight_relevance_dict)
                 | None \<Rightarrow>
                     aggregate ops uid rest (AList.update text relevance insight_relevance_dict)))"

text \<open>
  The third loop, over a copy of the keys:
  \<^verbatim>\<open>if insight_relevance_dict[insight] < 0: del insight_relevance_dict[insight]\<close>.
\<close>

fun drop_negative ::
  "('c, 'b, 'f) collaborators \<Rightarrow> string list \<Rightarrow> 'f relevance_dict \<Rightarrow> error + 'f relevance_dict" where
  "drop_negative ops [] insight_relevance_dict = Inr insight_relevance_dict"
| "drop_negative ops (insight # rest) insight_relevance_dict =
     (case map_of insight_relevance_dict insight of
        None \<Rightarrow> Inl (KeyError insight)
      | Some r \<Rightarrow>
          if float_lt_0 ops r
          then drop_negative ops rest (AList.delete insight insight_relevance_dict)
          else drop_negative ops rest insight_relevance_dict)"

definition get_relevant_insights ::
  "('c, 'b, 'f) collaborators \<Rightarrow> string option \<Rightarrow> string list option
     \<Rightarrow> ('c, 'b) KnowledgeArchive \<Rightarrow> (error + 'f relevance_dict) \<times> ('c, 'b) KnowledgeArchive" where
  "get_relevant_insights ops task topic_list s =
     (if \<not> (task \<noteq> None \<or> topic_list \<noteq> None) then
        (Inl (AssertionError ''Either the task string or the topics list must be provided.''), s)
      else case topic_list of
        None \<Rightarrow>
          (Inl (AssertionError
             ''For now, the topics list is always required, because it won't be generated.''), s)
      | Some tps \<Rightarrow>
          (case collect_matches ops tps [] (memo_store s) of
             (matches, c) \<Rightarrow>
               (let s1 = s\<lparr>memo_store := c\<rparr>
                in case aggregate ops (uid_insight_dict s1) matches [] of
                     Inl e \<Rightarrow> (Inl e, s1)
                   | Inr d \<Rightarrow> (drop_negative ops (map fst d) d, s1))))"

subsection \<open>Sequences of calls\<close>

text \<open>
  A caller's program that only adds to the archive: a list of calls to \<^verbatim>\<open>add_insight\<close>
  and \<^verbatim>\<open>add_demonstration\<close>, performed in order. \<open>run_calls\<close> gives the outcome of each
  call and the state after the last one.
\<close>

datatype call =
    AddInsight string "string option" "string list option"
  | AddDemonstration string string "string list"

fun perform ::
  "('c, 'b, 'f) collaborators \<Rightarrow> call \<Rightarrow> ('c, 'b) KnowledgeArchive
     \<Rightarrow> (error + unit) \<times> ('c, 'b) KnowledgeArchive" where
  "perform ops (AddInsight insight_text task topic_list) s =
     add_insight ops insight_text task topic_list s"
| "perform ops (AddDemonstration task demonstration topic_list) s =
     add_demonstration ops task demonstration topic_list s"

fun run_calls ::
  "('c, 'b, 'f) collaborators \<Rightarrow> call list \<Rightarrow> ('c, 'b) KnowledgeArchive
     \<Rightarrow> (error + unit) list \<times> ('c, 'b) KnowledgeArchive" where
  "run_calls ops [] s = ([], s)"
| "run_calls ops (c # cs) s =
     (case perform ops c s of
        (r, s') \<Rightarrow> (case run_calls ops cs s' of (rs, s'') \<Rightarrow> (r # rs, s'')))"

text \<open>The ids \<^verbatim>\<open>"1", ..., "n"\<close>.\<close>

definition dense_ids :: "nat \<Rightarrow> string list" where
  "dense_ids n = map (\<lambda>k. str_int (int k)) [1..<Suc n]"

subsection \<open>What the spec says a query returns\<close>

text \<open>
  The spec's description of the result of \<^verbatim>\<open>get_relevant_insights\<close>, written from its
  words and not from the code.
  \<^item> \<open>query_results\<close> are the matches returned by the similarity queries: one query for
    each topic, in the order of the topics, with \<open>K = 25\<close> and \<open>D = 100\<close>, each on the
    store as the query before it left it; the results of all topics are pooled.
  \<^item> A match \<open>resolves_to\<close> a text when its insight id is a key of the mapping and the
    insight stored there has that text.
  \<^item> The \<open>relevances\<close> of a text are \<open>1.7 - distance\<close> for the matches that resolve to
    it, in the order of the matches.
  \<^item> The \<open>summed_relevance\<close> of a text is their sum \<open>r\<^sub>1 + r\<^sub>2 + ... + r\<^sub>n\<close>, added
    from the left as floats are; a text that no match resolves to has none.
  \<^item> The \<open>spec_relevant_insights\<close> give a text its summed relevance, unless it has none
    or the sum is strictly negative.
\<close>

fun query_results :: "('c, 'b, 'f) collaborators \<Rightarrow> string list \<Rightarrow> 'c \<Rightarrow> 'f match list" where
  "query_results ops [] c = []"
| "query_results ops (topic # rest) c =
     fst (get_related_memos ops topic 25 100 c)
       @ query_results ops rest (snd (get_related_memos ops topic 25 100 c))"

definition resolves_to :: "uid_dict \<Rightarrow> 'f match \<Rightarrow> string \<Rightarrow> bool" where
  "resolves_to uid m t = (map_option insight_str (map_of uid (fst (snd m))) = Some t)"

definition relevances ::
  "('c, 'b, 'f) collaborators \<Rightarrow> uid_dict \<Rightarrow> 'f match list \<Rightarrow> string \<Rightarrow> 'f list" where
  "relevances ops uid ms t =
     map (\<lambda>m. float_sub ops (float_1_7 ops) (snd (snd m))) (filter (\<lambda>m. resolves_to uid m t) ms)"

definition float_sum :: "('c, 'b, 'f) collaborators \<Rightarrow> 'f list \<Rightarrow> 'f option" where
  "float_sum ops rs = (case rs of [] \<Rightarrow> None | r # rest \<Rightarrow> Some (foldl (float_add ops) r rest))"

definition summed_relevance ::
  "('c, 'b, 'f) collaborators \<Rightarrow> uid_dict \<Rightarrow> 'f match list \<Rightarrow> string \<Rightarrow> 'f option" where
  "summed_relevance ops uid ms t = float_sum ops (relevances ops uid ms t)"

definition spec_relevant_insights ::
  "('c, 'b, 'f) collaborators \<Rightarrow> uid_dict \<Rightarrow> 'f match list \<Rightarrow> string \<Rightarrow> 'f option" where
  "spec_relevant_insights ops uid ms t =
     (case summed_relevance ops uid ms t of
        None \<Rightarrow> None
      | Some v \<Rightarrow> if float_lt_0 ops v then None else Some v)"

subsection \<open>Decimal numerals read back\<close>

definition digit_val :: "char \<Rightarrow> nat" where
  "digit_val c = of_char c - 48"

definition nat_of_digits :: "string \<Rightarrow> nat" where
  "nat_of_digits cs = foldl (\<lambda>a c. 10 * a + digit_val c) 0 cs"

subsection \<open>IEEE binary64\<close>

text \<open>
  The floats of CPython: IEEE 754 binary64, every operation rounded to nearest, ties to
  even. Every finite double is an integer multiple of \<open>2\<^sup>-\<^sup>1\<^sup>0\<^sup>7\<^sup>4\<close>, the smallest
  subnormal, so \<open>Finite k\<close> is the double \<open>k \<times> 2\<^sup>-\<^sup>1\<^sup>0\<^sup>7\<^sup>4\<close>; \<open>Finite 0\<close> is \<^verbatim>\<open>0.0\<close> and
  \<open>NegZero\<close> is \<^verbatim>\<open>-0.0\<close>. The integers that stand for doubles are those with at most 53
  significant bits and a magnitude below \<open>2\<^sup>2\<^sup>0\<^sup>9\<^sup>8\<close>, which is \<open>2\<^sup>1\<^sup>0\<^sup>2\<^sup>4\<close> in these units.
\<close>

datatype double = Finite int | NegZero | PosInf | NegInf | NaN

text \<open>
  \<open>round_units k\<close> is the double nearest to \<open>k \<times> 2\<^sup>-\<^sup>1\<^sup>0\<^sup>7\<^sup>4\<close>. With at most 53 bits
  \<open>k\<close> is a double already. Otherwise the \<open>sh\<close> low bits are rounded away: up when they
  are more than half a unit in the last place, or exactly half and the kept part is odd.
  A result of \<open>2\<^sup>1\<^sup>0\<^sup>2\<^sup>4\<close> or more is an infinity.
\<close>

definition round_units :: "int \<Rightarrow> double" where
  "round_units k =
     (let a = \<bar>k\<bar>; b = bitlen a in
      if b \<le> 53 then Finite k
      else
        (let sh = nat (b - 53);
             q = a div 2 ^ sh;
             r = a mod 2 ^ sh;
             half = 2 ^ (sh - 1);
             n = (if half < r \<or> (r = half \<and> odd q) then q + 1 else q);
             v = n * 2 ^ sh
         in if 2 ^ 2098 \<le> v then (if k < 0 then NegInf else PosInf)
            else Finite (if k < 0 then - v else v)))"

fun double_neg :: "double \<Rightarrow> double" where
  "double_neg (Finite k) = (if k = 0 then NegZero else Finite (- k))"
| "double_neg NegZero = Finite 0"
| "double_neg PosInf = NegInf"
| "double_neg NegInf = PosInf"
| "double_neg NaN = NaN"

text \<open>
  Addition. The sum of two finite doubles is computed exactly and rounded once; an exact
  sum of zero is \<^verbatim>\<open>0.0\<close>, except that \<^verbatim>\<open>-0.0 + -0.0\<close> is \<^verbatim>\<open>-0.0\<close>.
\<close>

fun double_add :: "double \<Rightarrow> double \<Rightarrow> double" where
  "double_add NaN y = NaN"
| "double_add x NaN = NaN"
| "double_add PosInf NegInf = NaN"
| "double_add NegInf PosInf = NaN"
| "double_add PosInf y = PosInf"
| "double_add x PosInf = PosInf"
| "double_add NegInf y = NegInf"
| "double_add x NegInf = NegInf"
| "double_add NegZero NegZero = NegZero"
| "double_add NegZero (Finite k) = Finite k"
| "double_add (Finite j) NegZero = Finite j"
| "double_add (Finite j) (Finite k) = round_units (j + k)"

definition double_sub :: "double \<Rightarrow> double \<Rightarrow> double" where
  "double_sub x y = double_add x (double_neg y)"

text \<open>\<^verbatim>\<open>x < 0\<close>: false for both zeros and for NaN.\<close>

fun double_lt_0 :: "double \<Rightarrow> bool" where
  "double_lt_0 (Finite k) = (k < 0)"
| "double_lt_0 NegInf = True"
| "double_lt_0 x = False"

text \<open>
  \<open>dyadic m e\<close> is the double \<open>m \<times> 2\<^sup>e\<close>, for \<open>m\<close> of at most 53 bits and
  \<open>-1074 \<le> e\<close>. The literal \<^verbatim>\<open>1.7\<close> denotes the double nearest to 17/10, which is
  \<open>7656119366529843 \<times> 2\<^sup>-\<^sup>5\<^sup>2\<close>.
\<close>

definition dyadic :: "int \<Rightarrow> int \<Rightarrow> double" where
  "dyadic m e = Finite (m * 2 ^ nat (e + 1074))"

definition double_1_7 :: double where
  "double_1_7 = dyadic 7656119366529843 (- 52)"

subsection \<open>A small instance for the examples\<close>

text \<open>
  A similarity store that is a list of associations, with a fixed table of distances
  between topics (the doubles \<^verbatim>\<open>1.0\<close>, \<^verbatim>\<open>1.2\<close> and \<^verbatim>\<open>2.0\<close>), a \<^verbatim>\<open>pickle\<close> that stores
  the mapping itself, a home directory that leaves paths as they are, and binary64 for the
  floats. The examples below evaluate the archive on it.
\<close>

definition example_distance :: "string \<Rightarrow> string \<Rightarrow> double" where
  "example_distance query key =
     (if query = key then dyadic 1 0
      else if query = ''b'' \<and> key = ''a'' then dyadic 5404319552844595 (- 52)
      else dyadic 1 1)"

definition example_ops :: "((string \<times> string) list, uid_dict, double) collaborators" where
  "example_ops =
     \<lparr>expanduser = (\<lambda>p. p),
      MemoStore_init = (\<lambda>reset path c. if reset then [] else c),
      add_input_output_pair = (\<lambda>key v c. c @ [(key, v)]),
      get_related_memos =
        (\<lambda>query n t c. (map (\<lambda>kv. (fst kv, snd kv, example_distance query (fst kv))) (take (nat n) c), c)),
      save_memos = (\<lambda>c. c),
      pickle_dump = (\<lambda>d. d),
      pickle_load = Inr,
      float_1_7 = double_1_7,
      float_sub = double_sub,
      float_add = double_add,
      float_lt_0 = double_lt_0\<rparr>"

definition example_path :: string where
  "example_path = ''tmp/memory/run1/uid_insight_dict.pkl''"

definition example_archive :: "((string \<times> string) list, uid_dict) KnowledgeArchive" where
  "example_archive =
     \<lparr>path_to_dict = example_path, memo_store = [], uid_insight_dict = [],
      last_insight_id = 0, disk = (\<lambda>p. None)\<rparr>"

definition units_insight :: Insight where
  "units_insight =
     \<lparr>insight_id = ''1'', insight_str = ''Convert the units first.'',
      task_str = None, topics = [''a'']\<rparr>"

definition signs_insight :: Insight where
  "signs_insight =
     \<lparr>insight_id = ''2'', insight_str = ''Check the signs.'',
      task_str = Some ''Solve the equation.'', topics = [''c'']\<rparr>"

definition taught_archive :: "((string \<times> string) list, uid_dict) KnowledgeArchive" where
  "taught_archive =
     \<lparr>path_to_dict = example_path,
      memo_store = [(''a'', ''1''), (''c'', ''2'')],
      uid_insight_dict = [(''1'', units_insight), (''2'', signs_insight)],
      last_insight_id = 2, disk = (\<lambda>p. None)\<rparr>"

text \<open>An archive whose index names an insight id that the mapping does not have.\<close>

definition dangling_archive :: "((string \<times> string) list, uid_dict) KnowledgeArchive" where
  "dangling_archive =
     \<lparr>path_to_dict = example_path,
      memo_store = [(''a'', ''1''), (''c'', ''7'')],
      uid_insight_dict = [(''1'', units_insight)],
      last_insight_id = 1, disk = (\<lambda>p. None)\<rparr>"

text \<open>A snapshot file that no archive wrote: one entry, under the id \<^verbatim>\<open>"2"\<close>.\<close>

definition foreign_disk :: "string \<Rightarrow> uid_dict option" where
  "foreign_disk p = (if p = example_path then Some [(''2'', signs_insight)] else None)"

definition foreign_archive :: "((string \<times> string) list, uid_dict) KnowledgeArchive" where
  "foreign_archive =
     \<lparr>path_to_dict = example_path, memo_store = [],
      uid_insight_dict = [(''2'', signs_insight)],
      last_insight_id = 1, disk = foreign_disk\<rparr>"

subsection \<open>Dense ids\<close>

text \<open>
  An archive is \<open>dense\<close> at \<open>n\<close> when its counter is \<open>n\<close> and the keys of its
  mapping, in insertion order, and the ids of the insights stored under them are the
  strings \<^verbatim>\<open>"1", ..., "n"\<close>.
\<close>

definition dense :: "('c, 'b) KnowledgeArchive \<Rightarrow> nat \<Rightarrow> bool" where
  "dense s n \<longleftrightarrow> last_insight_id s = int n
     \<and> map fst (uid_insight_dict s) = dense_ids n
     \<and> map (\<lambda>kv. insight_id (snd kv)) (uid_insight_dict s) = dense_ids n"

definition example_calls :: "call list" where
  "example_calls =
     [AddInsight ''Convert the units first.'' None (Some [''a'']),
      AddDemonstration ''T'' ''D'' [''x'']]"

subsection \<open>Query results given by a table\<close>

text \<open>
  The example instance with a similarity store that answers from a table, so that the
  distances of the matches can be chosen: \<open>two_matches d1 d2\<close> answers the topic
  \<^verbatim>\<open>"a"\<close> with the insight \<^verbatim>\<open>"1"\<close> at distance \<open>d1\<close> and the topic \<^verbatim>\<open>"b"\<close> with the
  same insight at distance \<open>d2\<close>.
\<close>

definition table_ops ::
  "(string \<Rightarrow> double match list) \<Rightarrow> ((string \<times> string) list, uid_dict, double) collaborators" where
  "table_ops table = example_ops\<lparr>get_related_memos := (\<lambda>query n t c. (table query, c))\<rparr>"

definition two_matches :: "double \<Rightarrow> double \<Rightarrow> string \<Rightarrow> double match list" where
  "two_matches d1 d2 query =
     (if query = ''a'' then [(''a'', ''1'', d1)]
      else if query = ''b'' then [(''b'', ''1'', d2)] else [])"

section \<open>Properties\<close>

subsection \<open>Auxiliary facts\<close>

lemma format_demonstration:
  "format_str demonstration_template [task, demonstration] =
     Inr (''Example task:\<newline>\<newline>'' @ task @ ''\<newline>Example solution:\<newline>\<newline>'' @ demonstration)"
  by (simp add: demonstration_template_def)

lemma save_archive_fields:
  "path_to_dict (save_archive ops s) = path_to_dict s"
  "memo_store (save_archive ops s) = save_memos ops (memo_store s)"
  "uid_insight_dict (save_archive ops s) = uid_insight_dict s"
  "last_insight_id (save_archive ops s) = last_insight_id s"
  "disk (save_archive ops s) = (disk s)(path_to_dict s \<mapsto> pickle_dump ops (uid_insight_dict s))"
  by (simp_all add: save_archive_def Let_def)

lemma store_insight_fields:
  "path_to_dict (store_insight ops k v s) = path_to_dict s"
  "memo_store (store_insight ops k v s) = save_memos ops (index_topics ops (topics v) k (memo_store s))"
  "uid_insight_dict (store_insight ops k v s) = AList.update k v (uid_insight_dict s)"
  "last_insight_id (store_insight ops k v s) = last_insight_id s"
  by (simp_all add: store_insight_def Let_def save_archive_fields)

lemma str_int_1: "str_int 1 = ''1''"
  by (simp add: str_int_def str_nat.simps)

lemma example_dict_path: "dict_path example_ops ''tmp/memory'' ''run1'' = example_path"
  by (simp add: dict_path_def os_path_join_def join_component_def example_ops_def example_path_def)

lemma example_query_pure: "snd (get_related_memos example_ops topic n t c) = c"
  by (simp add: example_ops_def)

subsection \<open>Rejected arguments\<close>

text \<open>
  Claim C2, as the code has it. \<^verbatim>\<open>add_insight\<close> asserts \<^verbatim>\<open>topics is not None\<close> and
  nothing about the length of the list. For every call whose topics argument is absent,
  the call fails with the assertion error and the archive, its id counter included, is
  left as it was. A call whose topics argument is the empty list is accepted: it succeeds
  and advances the id counter by one.
\<close>

theorem add_insight_topics_absent:
  "add_insight ops insight_text task None s =
     (Inl (AssertionError ''For now, the topics list must be provided.''), s)
   \<and> fst (add_insight ops insight_text task (Some []) s) = Inr ()
   \<and> last_insight_id (snd (add_insight ops insight_text task (Some []) s)) = last_insight_id s + 1"
  by (simp add: add_insight_def Let_def store_insight_fields)

theorem add_insight_topics_absent_witness:
  "add_insight example_ops ''Convert the units first.'' None None example_archive =
     (Inl (AssertionError ''For now, the topics list must be provided.''), example_archive)
   \<and> fst (add_insight example_ops ''Convert the units first.'' None (Some []) example_archive) = Inr ()
   \<and> last_insight_id (snd (add_insight example_ops ''Convert the units first.'' None (Some []) example_archive)) = 1"
  using add_insight_topics_absent [of example_ops "''Convert the units first.''" None example_archive]
  by (simp add: example_archive_def)

text \<open>
  Claim C2 as stated fails: on the empty archive, \<^verbatim>\<open>add_insight\<close> with the empty topics
  list does not fail, and the counter goes from 0 to 1.
\<close>

theorem add_insight_empty_topics_counterexample:
  "\<not> (isl (fst (add_insight example_ops ''Convert the units first.'' None (Some []) example_archive))
       \<and> last_insight_id (snd (add_insight example_ops ''Convert the units first.'' None (Some []) example_archive))
           = last_insight_id example_archive)
   \<and> fst (add_insight example_ops ''Convert the units first.'' None (Some []) example_archive) = Inr ()
   \<and> last_insight_id example_archive = 0
   \<and> last_insight_id (snd (add_insight example_ops ''Convert the units first.'' None (Some []) example_archive)) = 1"
  by (simp add: add_insight_def Let_def store_insight_fields example_archive_def)

text \<open>
  Claim C3, as the code has it. \<^verbatim>\<open>get_relevant_insights\<close> asserts that the task string
  or the topics list is given, and then that the topics list is given. For every call
  whose topics argument is absent, with or without a task string, the call fails with an
  assertion error, returns no mapping and leaves the archive as it was. A call whose
  topics argument is the empty list returns the empty mapping.
\<close>

theorem get_relevant_insights_topics_absent:
  "get_relevant_insights ops None None s =
     (Inl (AssertionError ''Either the task string or the topics list must be provided.''), s)
   \<and> get_relevant_insights ops (Some task) None s =
     (Inl (AssertionError
        ''For now, the topics list is always required, because it won't be generated.''), s)
   \<and> get_relevant_insights ops any_task (Some []) s = (Inr [], s)"
  by (simp add: get_relevant_insights_def)

theorem get_relevant_insights_topics_absent_witness:
  "get_relevant_insights example_ops None None taught_archive =
     (Inl (AssertionError ''Either the task string or the topics list must be provided.''), taught_archive)
   \<and> get_relevant_insights example_ops (Some ''Solve the equation.'') None taught_archive =
     (Inl (AssertionError
        ''For now, the topics list is always required, because it won't be generated.''), taught_archive)
   \<and> get_relevant_insights example_ops (Some ''Solve the equation.'') (Some []) taught_archive = (Inr [], taught_archive)"
  using get_relevant_insights_topics_absent [of example_ops taught_archive "''Solve the equation.''" "Some ''Solve the equation.''"]
  by simp

text \<open>
  Claim C3 as stated fails: with a task string and the empty topics list the call does
  not fail, it returns the empty mapping.
\<close>

theorem get_relevant_insights_empty_topics_counterexample:
  "\<not> isl (fst (get_relevant_insights example_ops (Some ''Solve the equation.'') (Some []) taught_archive))
   \<and> get_relevant_insights example_ops (Some ''Solve the equation.'') (Some []) taught_archive
       = (Inr [], taught_archive)"
  by (simp add: get_relevant_insights_def)

text \<open>
  Claim C4, as the code has it. \<^verbatim>\<open>add_demonstration\<close> has no assertion on its topics.
  For every call whose topics argument is the empty sequence, the call succeeds: it
  advances the id counter by one, stores the synthesized insight, with no topics, under the
  new id, and adds no association to the similarity index, which is only flushed.
\<close>

theorem add_demonstration_empty_topics:
  "fst (add_demonstration ops task demonstration [] s) = Inr ()
   \<and> last_insight_id (snd (add_demonstration ops task demonstration [] s)) = last_insight_id s + 1
   \<and> uid_insight_dict (snd (add_demonstration ops task demonstration [] s)) =
       AList.update (str_int (last_insight_id s + 1))
         \<lparr>insight_id = str_int (last_insight_id s + 1),
          insight_str = ''Example task:\<newline>\<newline>'' @ task @ ''\<newline>Example solution:\<newline>\<newline>'' @ demonstration,
          task_str = Some task, topics = []\<rparr>
         (uid_insight_dict s)
   \<and> memo_store (snd (add_demonstration ops task demonstration [] s)) = save_memos ops (memo_store s)"
  by (simp add: add_demonstration_def Let_def format_demonstration store_insight_fields)

theorem add_demonstration_empty_topics_witness:
  "fst (add_demonstration example_ops ''T'' ''D'' [] example_archive) = Inr ()
   \<and> last_insight_id (snd (add_demonstration example_ops ''T'' ''D'' [] example_archive)) = 1
   \<and> uid_insight_dict (snd (add_demonstration example_ops ''T'' ''D'' [] example_archive)) =
       [(''1'', \<lparr>insight_id = ''1'',
                 insight_str = ''Example task:\<newline>\<newline>T\<newline>Example solution:\<newline>\<newline>D'',
                 task_str = Some ''T'', topics = []\<rparr>)]
   \<and> memo_store (snd (add_demonstration example_ops ''T'' ''D'' [] example_archive)) = []"
  using add_demonstration_empty_topics [of example_ops "''T''" "''D''" example_archive]
  by (simp add: example_archive_def str_int_1 example_ops_def)

text \<open>
  Claim C4 as stated fails: on the empty archive, \<^verbatim>\<open>add_demonstration\<close> with the empty
  topics list does not fail, and the mapping gains the insight with the id \<^verbatim>\<open>"1"\<close>.
\<close>

theorem add_demonstration_empty_topics_counterexample:
  "\<not> (isl (fst (add_demonstration example_ops ''T'' ''D'' [] example_archive))
       \<and> uid_insight_dict (snd (add_demonstration example_ops ''T'' ''D'' [] example_archive))
           = uid_insight_dict example_archive)
   \<and> fst (add_demonstration example_ops ''T'' ''D'' [] example_archive) = Inr ()
   \<and> uid_insight_dict example_archive = []
   \<and> uid_insight_dict (snd (add_demonstration example_ops ''T'' ''D'' [] example_archive)) =
       [(''1'', \<lparr>insight_id = ''1'',
                 insight_str = ''Example task:\<newline>\<newline>T\<newline>Example solution:\<newline>\<newline>D'',
                 task_str = Some ''T'', topics = []\<rparr>)]"
  by (simp add: add_demonstration_def Let_def format_demonstration store_insight_fields
      example_archive_def str_int_1)

subsection \<open>The text of a demonstration\<close>

text \<open>
  Claim C7. For every task string, demonstration string and topics list (non-empty or
  not), \<^verbatim>\<open>add_demonstration\<close> succeeds and stores, under the id it allocates, an insight
  whose \<open>insight_str\<close> is \<^verbatim>\<open>"Example task:\n\n"\<close> followed by the task,
  \<^verbatim>\<open>"\nExample solution:\n\n"\<close> and the demonstration, and whose \<open>task_str\<close> is the
  task. The task and the demonstration are inserted as they are, braces included.
\<close>

theorem add_demonstration_template:
  "fst (add_demonstration ops task demonstration topic_list s) = Inr ()
   \<and> map_of (uid_insight_dict (snd (add_demonstration ops task demonstration topic_list s)))
       (str_int (last_insight_id s + 1)) =
     Some \<lparr>insight_id = str_int (last_insight_id s + 1),
           insight_str = ''Example task:\<newline>\<newline>'' @ task @ ''\<newline>Example solution:\<newline>\<newline>'' @ demonstration,
           task_str = Some task, topics = topic_list\<rparr>"
  by (simp add: add_demonstration_def Let_def format_demonstration store_insight_fields
      update_conv')

theorem add_demonstration_template_witness:
  "fst (add_demonstration example_ops ''T'' ''D'' [''x''] example_archive) = Inr ()
   \<and> map_of (uid_insight_dict (snd (add_demonstration example_ops ''T'' ''D'' [''x''] example_archive))) ''1'' =
     Some \<lparr>insight_id = ''1'',
           insight_str = ''Example task:\<newline>\<newline>T\<newline>Example solution:\<newline>\<newline>D'',
           task_str = Some ''T'', topics = [''x'']\<rparr>"
  using add_demonstration_template [of example_ops "''T''" "''D''" "[''x'']" example_archive]
  by (simp add: example_archive_def str_int_1)

subsection \<open>Saving and loading\<close>

text \<open>
  Claim C8. For every archive state, after \<^verbatim>\<open>save_archive\<close> a new archive constructed
  over the same storage location with \<^verbatim>\<open>reset\<close> false has the mapping of the saved
  archive, and its counter is the number of entries of that mapping. The same location
  means the memory directory and run subdirectory that give the saved archive's
  \<open>path_to_dict\<close>. What \<^verbatim>\<open>pickle\<close> does is assumed, not proved: loading what was dumped
  gives the mapping back.
\<close>

theorem save_then_load:
  assumes "pickle_load ops (pickle_dump ops (uid_insight_dict s)) = Inr (uid_insight_dict s)"
    and "path_to_dict s = dict_path ops memory_dir run_subdir"
  shows "\<exists>b. KnowledgeArchive_init ops False memory_dir run_subdir c (disk (save_archive ops s)) = Inr b
           \<and> uid_insight_dict b = uid_insight_dict s
           \<and> last_insight_id b = int (length (uid_insight_dict s))"
  using assms by (simp add: KnowledgeArchive_init_def Let_def save_archive_fields)

theorem save_then_load_witness:
  "pickle_load example_ops (pickle_dump example_ops (uid_insight_dict taught_archive))
     = Inr (uid_insight_dict taught_archive)
   \<and> path_to_dict taught_archive = dict_path example_ops ''tmp/memory'' ''run1''
   \<and> (\<exists>b. KnowledgeArchive_init example_ops False ''tmp/memory'' ''run1'' []
             (disk (save_archive example_ops taught_archive)) = Inr b
           \<and> uid_insight_dict b = [(''1'', units_insight), (''2'', signs_insight)]
           \<and> last_insight_id b = 2)"
proof -
  have a: "pickle_load example_ops (pickle_dump example_ops (uid_insight_dict taught_archive))
     = Inr (uid_insight_dict taught_archive)"
    by (simp add: example_ops_def)
  have b: "path_to_dict taught_archive = dict_path example_ops ''tmp/memory'' ''run1''"
    by (simp add: example_dict_path taught_archive_def)
  from save_then_load [OF a b, of "[]"] a b show ?thesis
    by (simp add: taught_archive_def)
qed

subsection \<open>Retrieval leaves the archive alone\<close>

lemma collect_matches_store:
  "(\<And>topic c. snd (get_related_memos ops topic 25 100 c) = c)
     \<Longrightarrow> snd (collect_matches ops tps ms c) = c"
proof (induction tps arbitrary: ms c)
  case Nil
  show ?case by simp
next
  case (Cons topic rest)
  obtain found c' where q: "get_related_memos ops topic 25 100 c = (found, c')"
    by (cases "get_related_memos ops topic 25 100 c")
  with Cons.prems [of topic c] have "c' = c" by simp
  with q Cons show ?case by simp
qed

text \<open>
  Claim C9. For every call to \<^verbatim>\<open>get_relevant_insights\<close>, failing or not, the archive
  after the call is the archive before it: the mapping, the id counter, the path, the
  files and the similarity index. The method assigns to no attribute; the index is only
  reached through \<^verbatim>\<open>get_related_memos\<close>, which the spec describes as a query, and that the
  query leaves the index as it found it is the assumption here.
\<close>

theorem get_relevant_insights_no_mutation:
  assumes "\<And>topic c. snd (get_related_memos ops topic 25 100 c) = c"
  shows "snd (get_relevant_insights ops task topic_list s) = s"
proof (cases topic_list)
  case None
  then show ?thesis by (simp add: get_relevant_insights_def)
next
  case (Some tps)
  obtain ms c where cm: "collect_matches ops tps [] (memo_store s) = (ms, c)"
    by (cases "collect_matches ops tps [] (memo_store s)")
  with collect_matches_store [OF assms, of tps "[]" "memo_store s"] have "c = memo_store s"
    by simp
  with Some cm show ?thesis
    by (simp add: get_relevant_insights_def split: sum.splits)
qed

theorem get_relevant_insights_no_mutation_witness:
  "(\<forall>topic c. snd (get_related_memos example_ops topic 25 100 c) = c)
   \<and> snd (get_relevant_insights example_ops None (Some [''a'', ''b'']) taught_archive) = taught_archive"
  using get_relevant_insights_no_mutation [of example_ops None "Some [''a'', ''b'']" taught_archive]
  by (simp add: example_query_pure)

subsection \<open>Decimal numerals are unambiguous\<close>

lemma digit_val_digit: "d < 10 \<Longrightarrow> digit_val (''0123456789'' ! d) = d"
proof -
  assume "d < 10"
  then have "d \<in> {0, 1, 2, 3, 4, 5, 6, 7, 8, 9}" by auto
  then show ?thesis by (auto simp: digit_val_def)
qed

lemma nat_of_digits_snoc: "nat_of_digits (cs @ [c]) = 10 * nat_of_digits cs + digit_val c"
  by (simp add: nat_of_digits_def)

lemma nat_of_digits_str_nat: "nat_of_digits (str_nat n) = n"
proof (induction n rule: str_nat.induct)
  case (1 n)
  show ?case
  proof (cases "n < 10")
    case True
    then show ?thesis
      by (subst str_nat.simps) (simp add: nat_of_digits_def digit_val_digit)
  next
    case False
    with 1 have "nat_of_digits (str_nat (n div 10)) = n div 10" by simp
    with False show ?thesis
      by (subst str_nat.simps) (simp add: nat_of_digits_snoc digit_val_digit)
  qed
qed

lemma str_nat_inj: "str_nat m = str_nat n \<Longrightarrow> m = n"
  by (metis nat_of_digits_str_nat)

lemma str_int_inj: "0 \<le> i \<Longrightarrow> 0 \<le> j \<Longrightarrow> str_int i = str_int j \<Longrightarrow> i = j"
  by (auto simp: str_int_def dest: str_nat_inj)

lemma str_int_2: "str_int 2 = ''2''"
  by (simp add: str_int_def str_nat.simps)

subsection \<open>Allocation of ids\<close>

lemma dense_ids_0: "dense_ids 0 = []"
  by (simp add: dense_ids_def)

lemma dense_ids_Suc: "dense_ids (Suc n) = dense_ids n @ [str_int (int n + 1)]"
  by (simp add: dense_ids_def add.commute)

lemma length_dense_ids: "length (dense_ids n) = n"
  by (simp add: dense_ids_def)

lemma dense_ids_fresh: "str_int (int n + 1) \<notin> set (dense_ids n)"
proof
  assume "str_int (int n + 1) \<in> set (dense_ids n)"
  then obtain k where k: "k \<in> set [1..<Suc n]" and e: "str_int (int n + 1) = str_int (int k)"
    by (auto simp: dense_ids_def)
  from e have "int n + 1 = int k" by (intro str_int_inj) simp_all
  with k show False by simp
qed

lemma dense_ids_2: "dense_ids 2 = [''1'', ''2'']"
  by (simp add: dense_ids_def str_int_1 str_int_2 upt_rec)

lemma update_fresh: "k \<notin> fst ` set al \<Longrightarrow> AList.update k v al = al @ [(k, v)]"
  by (induction al) auto

lemma length_update_fresh: "k \<notin> fst ` set al \<Longrightarrow> length (AList.update k v al) = Suc (length al)"
  by (simp add: update_fresh)

lemma store_insight_dense:
  assumes "map fst (uid_insight_dict s) = dense_ids n"
    and "map (\<lambda>kv. insight_id (snd kv)) (uid_insight_dict s) = dense_ids n"
    and "last_insight_id s = int n + 1"
    and "insight_id v = str_int (int n + 1)"
  shows "dense (store_insight ops (str_int (int n + 1)) v s) (Suc n)"
proof -
  have "str_int (int n + 1) \<notin> fst ` set (uid_insight_dict s)"
    using dense_ids_fresh [of n] assms(1) by (metis set_map)
  then have "uid_insight_dict (store_insight ops (str_int (int n + 1)) v s)
        = uid_insight_dict s @ [(str_int (int n + 1), v)]"
    by (simp add: store_insight_fields update_fresh)
  with assms show ?thesis
    by (simp add: dense_def store_insight_fields dense_ids_Suc)
qed

lemma perform_dense:
  assumes "dense s n" and "fst (perform ops call s) = Inr ()"
  shows "dense (snd (perform ops call s)) (Suc n)"
proof -
  let ?s1 = "s\<lparr>last_insight_id := last_insight_id s + 1\<rparr>"
  from assms(1) have cnt: "last_insight_id s = int n"
    and keys: "map fst (uid_insight_dict ?s1) = dense_ids n"
    and ids: "map (\<lambda>kv. insight_id (snd kv)) (uid_insight_dict ?s1) = dense_ids n"
    and cnt1: "last_insight_id ?s1 = int n + 1"
    by (simp_all add: dense_def)
  show ?thesis
  proof (cases call)
    case (AddInsight insight_text task topic_list)
    with assms(2) obtain tps where tps: "topic_list = Some tps"
      by (cases topic_list) (auto simp: add_insight_def)
    let ?v = "\<lparr>insight_id = str_int (int n + 1), insight_str = insight_text,
                 task_str = task, topics = tps\<rparr>"
    have "dense (store_insight ops (str_int (int n + 1)) ?v ?s1) (Suc n)"
      by (rule store_insight_dense [OF keys ids cnt1]) simp
    then show ?thesis
      by (simp add: AddInsight tps add_insight_def Let_def cnt)
  next
    case (AddDemonstration task demonstration topic_list)
    let ?v = "\<lparr>insight_id = str_int (int n + 1),
                 insight_str = ''Example task:\<newline>\<newline>'' @ task @ ''\<newline>Example solution:\<newline>\<newline>'' @ demonstration,
                 task_str = Some task, topics = topic_list\<rparr>"
    have "dense (store_insight ops (str_int (int n + 1)) ?v ?s1) (Suc n)"
      by (rule store_insight_dense [OF keys ids cnt1]) simp
    then show ?thesis
      by (simp add: AddDemonstration add_demonstration_def Let_def format_demonstration cnt)
  qed
qed

lemma run_calls_dense:
  "dense s n \<Longrightarrow> \<forall>r \<in> set (fst (run_calls ops calls s)). r = Inr ()
     \<Longrightarrow> dense (snd (run_calls ops calls s)) (n + length calls)"
proof (induction calls arbitrary: s n)
  case Nil
  then show ?case by simp
next
  case (Cons call rest)
  obtain r s' where p: "perform ops call s = (r, s')" by (cases "perform ops call s")
  obtain rs s'' where q: "run_calls ops rest s' = (rs, s'')" by (cases "run_calls ops rest s'")
  from Cons.prems(2) p q have r: "r = Inr ()" and rs: "\<forall>r \<in> set rs. r = Inr ()" by simp_all
  from perform_dense [OF Cons.prems(1), of ops call] p r have "dense s' (Suc n)" by simp
  from Cons.IH [OF this] q rs have "dense s'' (Suc n + length rest)" by simp
  with p q show ?case by simp
qed

lemma dense_fresh:
  "dense s n \<Longrightarrow> str_int (last_insight_id s + 1) \<notin> fst ` set (uid_insight_dict s)"
  using dense_ids_fresh [of n] by (metis dense_def set_map)

lemma dense_count: "dense s n \<Longrightarrow> last_insight_id s = int (length (uid_insight_dict s))"
  by (metis dense_def length_dense_ids length_map)

lemma example_calls_succeed:
  "fst (run_calls example_ops example_calls example_archive) = [Inr (), Inr ()]"
  by (simp add: example_calls_def add_insight_def add_demonstration_def Let_def
      format_demonstration split: prod.splits)

lemma length_example_calls: "length example_calls = 2"
  by (simp add: example_calls_def)

text \<open>
  Claim C5. For every sequence of calls to \<^verbatim>\<open>add_insight\<close> and \<^verbatim>\<open>add_demonstration\<close>
  that all succeed, starting from an empty archive (counter 0, empty mapping): with \<open>N\<close> the
  number of calls, the keys of the mapping afterwards, in the order in which they were
  inserted, are \<^verbatim>\<open>"1", "2", ..., "N"\<close>, each insight carries the id it is stored under, and
  the counter is \<open>N\<close>. Since this holds for every sequence, it holds for every prefix of
  one: the \<open>k\<close>-th call is the one that allocates \<^verbatim>\<open>str(k)\<close>.
\<close>

theorem ids_in_call_order:
  assumes "uid_insight_dict s = []" and "last_insight_id s = 0"
    and "\<forall>r \<in> set (fst (run_calls ops calls s)). r = Inr ()"
  shows "map fst (uid_insight_dict (snd (run_calls ops calls s))) = dense_ids (length calls)
       \<and> map (\<lambda>kv. insight_id (snd kv)) (uid_insight_dict (snd (run_calls ops calls s)))
           = dense_ids (length calls)
       \<and> last_insight_id (snd (run_calls ops calls s)) = int (length calls)"
proof -
  from assms(1,2) have "dense s 0" by (simp add: dense_def dense_ids_0)
  from run_calls_dense [OF this assms(3)] show ?thesis by (simp add: dense_def)
qed

theorem ids_in_call_order_witness:
  "uid_insight_dict example_archive = [] \<and> last_insight_id example_archive = 0
   \<and> fst (run_calls example_ops example_calls example_archive) = [Inr (), Inr ()]
   \<and> map fst (uid_insight_dict (snd (run_calls example_ops example_calls example_archive)))
       = [''1'', ''2'']
   \<and> map (\<lambda>kv. insight_id (snd kv))
         (uid_insight_dict (snd (run_calls example_ops example_calls example_archive)))
       = [''1'', ''2'']
   \<and> last_insight_id (snd (run_calls example_ops example_calls example_archive)) = 2"
proof -
  have a: "uid_insight_dict example_archive = []" and b: "last_insight_id example_archive = 0"
    by (simp_all add: example_archive_def)
  have c: "\<forall>r \<in> set (fst (run_calls example_ops example_calls example_archive)). r = Inr ()"
    by (simp add: example_calls_succeed)
  from ids_in_call_order [OF a b c] a b example_calls_succeed show ?thesis
    by (simp add: length_example_calls dense_ids_2)
qed

subsection \<open>The counter and the number of entries\<close>

lemma example_load_foreign:
  "KnowledgeArchive_init example_ops False ''tmp/memory'' ''run1'' [] foreign_disk = Inr foreign_archive"
  unfolding KnowledgeArchive_init_def example_dict_path
  by (simp add: Let_def foreign_disk_def foreign_archive_def example_ops_def)

text \<open>
  Claim C6, as the code has it. The counter equals the number of entries of the mapping
  immediately after construction, whether a snapshot was loaded or not. A successful
  \<^verbatim>\<open>add_insight\<close> or \<^verbatim>\<open>add_demonstration\<close> preserves the equality when the id it
  allocates, \<^verbatim>\<open>str(last_insight_id + 1)\<close>, is not yet a key of the mapping. That is so in
  every dense archive (\<open>dense_fresh\<close>), hence in every archive reached from an empty one
  (\<open>run_calls_dense\<close>), saved and loaded again or not.
\<close>

theorem counter_equals_count:
  "(KnowledgeArchive_init ops reset memory_dir run_subdir c fs = Inr s0
      \<longrightarrow> last_insight_id s0 = int (length (uid_insight_dict s0)))
   \<and> (last_insight_id s = int (length (uid_insight_dict s))
        \<and> str_int (last_insight_id s + 1) \<notin> fst ` set (uid_insight_dict s)
      \<longrightarrow> (fst (add_insight ops insight_text task topic_list s) = Inr ()
            \<longrightarrow> last_insight_id (snd (add_insight ops insight_text task topic_list s))
                = int (length (uid_insight_dict (snd (add_insight ops insight_text task topic_list s)))))
          \<and> (fst (add_demonstration ops task' demonstration tps s) = Inr ()
            \<longrightarrow> last_insight_id (snd (add_demonstration ops task' demonstration tps s))
                = int (length (uid_insight_dict (snd (add_demonstration ops task' demonstration tps s))))))"
proof (intro conjI impI)
  assume "KnowledgeArchive_init ops reset memory_dir run_subdir c fs = Inr s0"
  then show "last_insight_id s0 = int (length (uid_insight_dict s0))"
    by (auto simp: KnowledgeArchive_init_def Let_def split: if_splits sum.splits)
next
  assume pre: "last_insight_id s = int (length (uid_insight_dict s))
        \<and> str_int (last_insight_id s + 1) \<notin> fst ` set (uid_insight_dict s)"
    and ok: "fst (add_insight ops insight_text task topic_list s) = Inr ()"
  from ok obtain tl where tl: "topic_list = Some tl"
    by (cases topic_list) (auto simp: add_insight_def)
  from pre have cnt: "last_insight_id s = int (length (uid_insight_dict s))"
    and fresh: "str_int (last_insight_id s + 1) \<notin> fst ` set (uid_insight_dict s)"
    by blast+
  have "length (AList.update (str_int (last_insight_id s + 1))
        \<lparr>insight_id = str_int (last_insight_id s + 1), insight_str = insight_text,
         task_str = task, topics = tl\<rparr> (uid_insight_dict s)) = Suc (length (uid_insight_dict s))"
    by (rule length_update_fresh [OF fresh])
  with cnt show "last_insight_id (snd (add_insight ops insight_text task topic_list s))
      = int (length (uid_insight_dict (snd (add_insight ops insight_text task topic_list s))))"
    by (simp add: tl add_insight_def Let_def store_insight_fields)
next
  assume pre: "last_insight_id s = int (length (uid_insight_dict s))
        \<and> str_int (last_insight_id s + 1) \<notin> fst ` set (uid_insight_dict s)"
  then have cnt: "last_insight_id s = int (length (uid_insight_dict s))"
    and fresh: "str_int (last_insight_id s + 1) \<notin> fst ` set (uid_insight_dict s)"
    by blast+
  have "length (AList.update (str_int (last_insight_id s + 1))
        \<lparr>insight_id = str_int (last_insight_id s + 1),
         insight_str = ''Example task:\<newline>\<newline>'' @ task' @ ''\<newline>Example solution:\<newline>\<newline>'' @ demonstration,
         task_str = Some task', topics = tps\<rparr> (uid_insight_dict s)) = Suc (length (uid_insight_dict s))"
    by (rule length_update_fresh [OF fresh])
  with cnt show "last_insight_id (snd (add_demonstration ops task' demonstration tps s))
      = int (length (uid_insight_dict (snd (add_demonstration ops task' demonstration tps s))))"
    by (simp add: add_demonstration_def Let_def format_demonstration store_insight_fields)
qed

theorem counter_equals_count_witness:
  "KnowledgeArchive_init example_ops False ''tmp/memory'' ''run1'' [] foreign_disk = Inr foreign_archive
   \<and> last_insight_id foreign_archive = int (length (uid_insight_dict foreign_archive))
   \<and> last_insight_id taught_archive = int (length (uid_insight_dict taught_archive))
   \<and> str_int (last_insight_id taught_archive + 1) \<notin> fst ` set (uid_insight_dict taught_archive)
   \<and> fst (add_insight example_ops ''Mind the rounding.'' None (Some [''a'']) taught_archive) = Inr ()
   \<and> last_insight_id (snd (add_insight example_ops ''Mind the rounding.'' None (Some [''a'']) taught_archive))
       = int (length (uid_insight_dict (snd (add_insight example_ops ''Mind the rounding.'' None (Some [''a'']) taught_archive))))
   \<and> fst (add_demonstration example_ops ''T'' ''D'' [''x''] taught_archive) = Inr ()
   \<and> last_insight_id (snd (add_demonstration example_ops ''T'' ''D'' [''x''] taught_archive))
       = int (length (uid_insight_dict (snd (add_demonstration example_ops ''T'' ''D'' [''x''] taught_archive))))"
proof -
  have a: "KnowledgeArchive_init example_ops False ''tmp/memory'' ''run1'' [] foreign_disk = Inr foreign_archive"
    by (rule example_load_foreign)
  have b: "last_insight_id taught_archive = int (length (uid_insight_dict taught_archive))"
    by (simp add: taught_archive_def)
  have c: "str_int (last_insight_id taught_archive + 1) \<notin> fst ` set (uid_insight_dict taught_archive)"
    by (simp add: taught_archive_def str_int_def str_nat.simps)
  have d: "fst (add_insight example_ops ''Mind the rounding.'' None (Some [''a'']) taught_archive) = Inr ()"
    by (simp add: add_insight_def Let_def)
  have e: "fst (add_demonstration example_ops ''T'' ''D'' [''x''] taught_archive) = Inr ()"
    by (simp add: add_demonstration_def Let_def format_demonstration)
  from counter_equals_count [of example_ops False "''tmp/memory''" "''run1''" "[]" foreign_disk
      foreign_archive taught_archive "''Mind the rounding.''" None "Some [''a'']" "''T''" "''D''" "[''x'']"]
    a b c d e
  show ?thesis by simp
qed

text \<open>
  Claim C6 as stated fails after a snapshot that holds one insight under the key
  \<^verbatim>\<open>"2"\<close>. Loading it gives the counter 1, equal to the number of entries; the next
  \<^verbatim>\<open>add_insight\<close> allocates \<^verbatim>\<open>"2"\<close> and overwrites that entry, so the counter is 2 and
  the mapping still has one entry.
\<close>

theorem counter_equals_count_counterexample:
  "KnowledgeArchive_init example_ops False ''tmp/memory'' ''run1'' [] foreign_disk = Inr foreign_archive
   \<and> last_insight_id foreign_archive = int (length (uid_insight_dict foreign_archive))
   \<and> fst (add_insight example_ops ''Convert the units first.'' None (Some [''a'']) foreign_archive) = Inr ()
   \<and> last_insight_id (snd (add_insight example_ops ''Convert the units first.'' None (Some [''a'']) foreign_archive)) = 2
   \<and> length (uid_insight_dict (snd (add_insight example_ops ''Convert the units first.'' None (Some [''a'']) foreign_archive))) = 1
   \<and> last_insight_id (snd (add_insight example_ops ''Convert the units first.'' None (Some [''a'']) foreign_archive))
       \<noteq> int (length (uid_insight_dict (snd (add_insight example_ops ''Convert the units first.'' None (Some [''a'']) foreign_archive))))"
  by (simp add: example_load_foreign add_insight_def Let_def store_insight_fields
      foreign_archive_def str_int_2)

subsection \<open>Relevance of insights\<close>

text \<open>
  The first loop pools the results of the queries, topic after topic; when the queries
  leave the store alone, that is the concatenation of what each topic's query returns on
  the store of the archive.
\<close>

lemma collect_matches_query_results:
  "fst (collect_matches ops tps acc c) = acc @ query_results ops tps c"
proof (induction tps arbitrary: acc c)
  case Nil
  show ?case by simp
next
  case (Cons topic rest)
  obtain found c' where q: "get_related_memos ops topic 25 100 c = (found, c')"
    by (cases "get_related_memos ops topic 25 100 c")
  from Cons [of "acc @ found" c'] q show ?case by simp
qed

lemma query_results_pure:
  "(\<And>topic c. snd (get_related_memos ops topic 25 100 c) = c) \<Longrightarrow>
     query_results ops tps c = concat (map (\<lambda>topic. fst (get_related_memos ops topic 25 100 c)) tps)"
  by (induction tps) simp_all

lemma relevances_Nil: "relevances ops uid [] t = []"
  by (simp add: relevances_def)

lemma relevances_Cons:
  "relevances ops uid (m # ms) t =
     (if resolves_to uid m t
      then float_sub ops (float_1_7 ops) (snd (snd m)) # relevances ops uid ms t
      else relevances ops uid ms t)"
  by (simp add: relevances_def)

lemma resolves_to_Some:
  "map_of uid (fst (snd m)) = Some v \<Longrightarrow> resolves_to uid m t \<longleftrightarrow> insight_str v = t"
  by (simp add: resolves_to_def)

text \<open>
  The accumulation of the second loop: a bucket that holds \<open>a\<close> ends with
  \<open>a + r\<^sub>1 + ... + r\<^sub>n\<close>, and a text with no bucket gets \<open>r\<^sub>1 + ... + r\<^sub>n\<close> if there
  is an \<open>r\<^sub>1\<close>.
\<close>

lemma aggregate_result:
  "distinct (map fst acc) \<Longrightarrow> aggregate ops uid ms acc = Inr d \<Longrightarrow>
     distinct (map fst d) \<and>
     (\<forall>t. map_of d t =
        (case map_of acc t of
           Some a \<Rightarrow> Some (foldl (float_add ops) a (relevances ops uid ms t))
         | None \<Rightarrow> float_sum ops (relevances ops uid ms t)))"
proof (induction ms arbitrary: acc)
  case Nil
  then show ?case by (auto simp: relevances_Nil float_sum_def split: option.splits)
next
  case (Cons m rest)
  from Cons.prems(2) obtain v where v: "map_of uid (fst (snd m)) = Some v"
    by (cases "map_of uid (fst (snd m))") (simp_all add: Let_def)
  let ?rel = "float_sub ops (float_1_7 ops) (snd (snd m))"
  let ?acc' = "AList.update (insight_str v)
      (case map_of acc (insight_str v) of None \<Rightarrow> ?rel | Some a \<Rightarrow> float_add ops a ?rel) acc"
  from Cons.prems(2) v have run: "aggregate ops uid rest ?acc' = Inr d"
    by (simp add: Let_def relevance_conversion_threshold_def split: option.splits)
  have dist: "distinct (map fst ?acc')"
    using Cons.prems(1) by (rule distinct_update)
  note ih = Cons.IH [OF dist run]
  show ?case
  proof (intro conjI allI)
    show "distinct (map fst d)" using ih by blast
  next
    fix t
    from ih have "map_of d t =
        (case map_of ?acc' t of
           Some a \<Rightarrow> Some (foldl (float_add ops) a (relevances ops uid rest t))
         | None \<Rightarrow> float_sum ops (relevances ops uid rest t))"
      by blast
    then show "map_of d t =
        (case map_of acc t of
           Some a \<Rightarrow> Some (foldl (float_add ops) a (relevances ops uid (m # rest) t))
         | None \<Rightarrow> float_sum ops (relevances ops uid (m # rest) t))"
      by (auto simp: update_conv' relevances_Cons resolves_to_Some [OF v] float_sum_def
          split: option.splits if_splits)
  qed
qed

lemma drop_negative_result:
  "distinct ks \<Longrightarrow> set ks \<subseteq> fst ` set d \<Longrightarrow> distinct (map fst d) \<Longrightarrow>
     \<exists>r. drop_negative ops ks d = Inr r \<and> distinct (map fst r) \<and>
       (\<forall>t. map_of r t =
          (case map_of d t of None \<Rightarrow> None
           | Some v \<Rightarrow> if t \<in> set ks \<and> float_lt_0 ops v then None else Some v))"
proof (induction ks arbitrary: d)
  case Nil
  then show ?case by (auto split: option.splits)
next
  case (Cons k ks)
  from Cons.prems(2) have "k \<in> fst ` set d" by simp
  then obtain v where v: "map_of d k = Some v"
    by (cases "map_of d k") (auto simp: map_of_eq_None_iff)
  from Cons.prems(1) have k: "k \<notin> set ks" and dks: "distinct ks" by simp_all
  show ?case
  proof (cases "float_lt_0 ops v")
    case True
    let ?d' = "AList.delete k d"
    have sub: "set ks \<subseteq> fst ` set ?d'"
    proof
      fix x assume x: "x \<in> set ks"
      with Cons.prems(2) have "x \<in> fst ` set d" by auto
      moreover from x k have "x \<noteq> k" by auto
      moreover have "fst ` set ?d' = set (removeAll k (map fst d))"
        by (metis delete_keys set_map)
      ultimately show "x \<in> fst ` set ?d'" by simp
    qed
    have dist: "distinct (map fst ?d')" using Cons.prems(3) by (rule distinct_delete)
    from Cons.IH [OF dks sub dist] obtain r where r: "drop_negative ops ks ?d' = Inr r"
      "distinct (map fst r)"
      "\<forall>t. map_of r t = (case map_of ?d' t of None \<Rightarrow> None
           | Some v \<Rightarrow> if t \<in> set ks \<and> float_lt_0 ops v then None else Some v)"
      by blast
    from r(1) v True have "drop_negative ops (k # ks) d = Inr r" by simp
    moreover have "\<forall>t. map_of r t = (case map_of d t of None \<Rightarrow> None
           | Some v \<Rightarrow> if t \<in> set (k # ks) \<and> float_lt_0 ops v then None else Some v)"
      using r(3) v True by (auto simp: delete_conv' split: option.splits)
    ultimately show ?thesis using r(2) by blast
  next
    case False
    from Cons.prems(2) have sub: "set ks \<subseteq> fst ` set d" by simp
    from Cons.IH [OF dks sub Cons.prems(3)] obtain r where r: "drop_negative ops ks d = Inr r"
      "distinct (map fst r)"
      "\<forall>t. map_of r t = (case map_of d t of None \<Rightarrow> None
           | Some v \<Rightarrow> if t \<in> set ks \<and> float_lt_0 ops v then None else Some v)"
      by blast
    from r(1) v False have "drop_negative ops (k # ks) d = Inr r" by simp
    moreover have "\<forall>t. map_of r t = (case map_of d t of None \<Rightarrow> None
           | Some v \<Rightarrow> if t \<in> set (k # ks) \<and> float_lt_0 ops v then None else Some v)"
      using r(3) v False by (auto split: option.splits)
    ultimately show ?thesis using r(2) by blast
  qed
qed

lemma drop_negative_keys:
  assumes "distinct (map fst d)"
  shows "\<exists>r. drop_negative ops (map fst d) d = Inr r \<and> distinct (map fst r) \<and>
       (\<forall>t. map_of r t =
          (case map_of d t of None \<Rightarrow> None
           | Some v \<Rightarrow> if float_lt_0 ops v then None else Some v))"
proof -
  from drop_negative_result [OF assms _ assms, of ops] obtain r
    where r: "drop_negative ops (map fst d) d = Inr r"
      "distinct (map fst r)"
      "\<forall>t. map_of r t = (case map_of d t of None \<Rightarrow> None
           | Some v \<Rightarrow> if t \<in> set (map fst d) \<and> float_lt_0 ops v then None else Some v)"
    by auto
  have "\<forall>t. map_of r t =
          (case map_of d t of None \<Rightarrow> None
           | Some v \<Rightarrow> if float_lt_0 ops v then None else Some v)"
  proof
    fix t
    show "map_of r t =
          (case map_of d t of None \<Rightarrow> None
           | Some v \<Rightarrow> if float_lt_0 ops v then None else Some v)"
    proof (cases "map_of d t")
      case None
      with r(3) show ?thesis by simp
    next
      case (Some v)
      then have "t \<in> set (map fst d)" by (metis map_of_eq_None_iff option.distinct(1) set_map)
      with r(3) Some show ?thesis by simp
    qed
  qed
  with r(1,2) show ?thesis by blast
qed

lemma get_relevant_insights_unfold:
  "fst (get_relevant_insights ops task (Some tps) s) =
     (case aggregate ops (uid_insight_dict s) (query_results ops tps (memo_store s)) [] of
        Inl e \<Rightarrow> Inl e
      | Inr d \<Rightarrow> drop_negative ops (map fst d) d)"
proof -
  obtain ms c where cm: "collect_matches ops tps [] (memo_store s) = (ms, c)"
    by (cases "collect_matches ops tps [] (memo_store s)")
  with collect_matches_query_results [of ops tps "[]" "memo_store s"]
  have "ms = query_results ops tps (memo_store s)" by simp
  with cm show ?thesis
    by (simp add: get_relevant_insights_def Let_def split: sum.splits)
qed

lemma aggregate_defined:
  "\<forall>m \<in> set ms. fst (snd m) \<in> fst ` set uid \<Longrightarrow> \<exists>d. aggregate ops uid ms acc = Inr d"
proof (induction ms arbitrary: acc)
  case Nil
  show ?case by simp
next
  case (Cons m rest)
  from Cons.prems have "fst (snd m) \<in> fst ` set uid" by simp
  then obtain v where v: "map_of uid (fst (snd m)) = Some v"
    by (cases "map_of uid (fst (snd m))") (auto simp: map_of_eq_None_iff)
  from Cons.prems have rest: "\<forall>m \<in> set rest. fst (snd m) \<in> fst ` set uid" by simp
  from v Cons.IH [OF rest] show ?case
    by (simp add: Let_def split: option.splits)
qed

lemma aggregate_KeyError:
  "\<exists>m \<in> set ms. fst (snd m) \<notin> fst ` set uid \<Longrightarrow>
     \<exists>k. aggregate ops uid ms acc = Inl (KeyError k) \<and> k \<notin> fst ` set uid
        \<and> k \<in> (\<lambda>m. fst (snd m)) ` set ms"
proof (induction ms arbitrary: acc)
  case Nil
  then show ?case by simp
next
  case (Cons m rest)
  show ?case
  proof (cases "map_of uid (fst (snd m))")
    case None
    then have "fst (snd m) \<notin> fst ` set uid" by (simp add: map_of_eq_None_iff)
    with None show ?thesis by (auto simp: Let_def)
  next
    case (Some v)
    then have "fst (snd m) \<in> fst ` set uid"
      by (metis map_of_eq_None_iff option.distinct(1))
    with Cons.prems have bad: "\<exists>m \<in> set rest. fst (snd m) \<notin> fst ` set uid" by auto
    let ?rel = "float_sub ops (relevance_conversion_threshold ops) (snd (snd m))"
    let ?acc' = "AList.update (insight_str v)
        (case map_of acc (insight_str v) of None \<Rightarrow> ?rel | Some a \<Rightarrow> float_add ops a ?rel) acc"
    from Cons.IH [OF bad, of ?acc'] obtain k where k: "aggregate ops uid rest ?acc' = Inl (KeyError k)"
      "k \<notin> fst ` set uid" "k \<in> (\<lambda>m. fst (snd m)) ` set rest"
      by blast
    from Some k(1) have "aggregate ops uid (m # rest) acc = Inl (KeyError k)"
      by (simp add: Let_def split: option.splits)
    with k(2,3) show ?thesis by auto
  qed
qed

subsection \<open>The examples in binary64\<close>

text \<open>
  The arithmetic of the spec's example: \<^verbatim>\<open>1.7 - 1.0\<close> is \<^verbatim>\<open>0.7\<close>, \<^verbatim>\<open>1.7 - 1.2\<close> is
  \<^verbatim>\<open>0.5\<close>, their sum is the double \<^verbatim>\<open>1.2\<close>; \<^verbatim>\<open>1.7 - 2.0\<close> is about \<^verbatim>\<open>-0.3\<close>.
\<close>

lemma example_floats:
  "float_1_7 example_ops = double_1_7"
  "float_sub example_ops = double_sub"
  "float_add example_ops = double_add"
  "float_lt_0 example_ops = double_lt_0"
  by (simp_all add: example_ops_def)

lemma table_floats:
  "float_1_7 (table_ops table) = double_1_7"
  "float_sub (table_ops table) = double_sub"
  "float_add (table_ops table) = double_add"
  "float_lt_0 (table_ops table) = double_lt_0"
  "get_related_memos (table_ops table) query n t c = (table query, c)"
  by (simp_all add: table_ops_def example_ops_def)

lemma double_1_7_minus_1_0: "double_sub double_1_7 (dyadic 1 0) = dyadic 3152519739159347 (- 52)"
  by code_simp

lemma double_1_7_minus_2_0: "double_sub double_1_7 (dyadic 1 1) = dyadic (- 1351079888211149) (- 52)"
  by code_simp

lemma double_1_7_minus_1_2: "double_sub double_1_7 (dyadic 5404319552844595 (- 52)) = dyadic 1 (- 1)"
  by code_simp

lemma double_0_7_plus_0_5:
  "double_add (dyadic 3152519739159347 (- 52)) (dyadic 1 (- 1)) = dyadic 5404319552844595 (- 52)"
  by code_simp

lemma double_minus_0_3_twice:
  "double_add (dyadic (- 1351079888211149) (- 52)) (dyadic (- 1351079888211149) (- 52))
     = dyadic (- 1351079888211149) (- 51)"
  by code_simp

lemma double_signs:
  "\<not> double_lt_0 (dyadic 5404319552844595 (- 52))"
  "double_lt_0 (dyadic (- 1351079888211149) (- 51))"
  "double_lt_0 (dyadic (- 1) (- 52))"
  "\<not> double_lt_0 (Finite 0)"
  by code_simp+

lemma example_matches:
  "query_results example_ops [''a'', ''b''] (memo_store taught_archive) =
     [(''a'', ''1'', dyadic 1 0), (''c'', ''2'', dyadic 1 1),
      (''a'', ''1'', dyadic 5404319552844595 (- 52)), (''c'', ''2'', dyadic 1 1)]"
  by (simp add: example_ops_def taught_archive_def example_distance_def)

lemma example_relevant:
  "fst (get_relevant_insights example_ops None (Some [''a'', ''b'']) taught_archive) =
     Inr [(''Convert the units first.'', dyadic 5404319552844595 (- 52))]"
  unfolding get_relevant_insights_unfold example_matches
  by (simp add: taught_archive_def units_insight_def signs_insight_def
      relevance_conversion_threshold_def Let_def example_floats
      double_1_7_minus_1_0 double_1_7_minus_2_0 double_1_7_minus_1_2
      double_0_7_plus_0_5 double_minus_0_3_twice double_signs)

lemma taught_matches:
  "query_results example_ops [''a''] (memo_store taught_archive) =
     [(''a'', ''1'', dyadic 1 0), (''c'', ''2'', dyadic 1 1)]"
  by (simp add: example_ops_def taught_archive_def example_distance_def)

lemma dangling_matches:
  "query_results example_ops [''a''] (memo_store dangling_archive) =
     [(''a'', ''1'', dyadic 1 0), (''c'', ''7'', dyadic 1 1)]"
  by (simp add: example_ops_def dangling_archive_def example_distance_def)

lemma dangling_KeyError:
  "fst (get_relevant_insights example_ops None (Some [''a'']) dangling_archive) = Inl (KeyError ''7'')"
  unfolding get_relevant_insights_unfold dangling_matches
  by (simp add: dangling_archive_def units_insight_def Let_def)

text \<open>
  Rounding decides at the border. At the distances \<^verbatim>\<open>1.6\<close> and \<^verbatim>\<open>1.8\<close> the two
  relevances are \<open>450359962737049 \<times> 2\<^sup>-\<^sup>5\<^sup>2\<close> and \<open>-450359962737050 \<times> 2\<^sup>-\<^sup>5\<^sup>2\<close>, their
  sum is \<open>-2\<^sup>-\<^sup>5\<^sup>2\<close> and the text is dropped. At the distances \<open>15 \<times> 2\<^sup>-\<^sup>5\<^sup>7\<close> and
  \<^verbatim>\<open>3.4\<close> the first relevance rounds to \<^verbatim>\<open>1.7\<close>, the second is \<^verbatim>\<open>-1.7\<close>, their sum is
  \<^verbatim>\<open>0.0\<close> and the text is kept with that value.
\<close>

lemma double_1_7_minus_1_6:
  "double_sub double_1_7 (dyadic 7205759403792794 (- 52)) = dyadic 450359962737049 (- 52)"
  by code_simp

lemma double_1_7_minus_1_8:
  "double_sub double_1_7 (dyadic 8106479329266893 (- 52)) = dyadic (- 450359962737050) (- 52)"
  by code_simp

lemma double_0_1_minus_0_1:
  "double_add (dyadic 450359962737049 (- 52)) (dyadic (- 450359962737050) (- 52)) = dyadic (- 1) (- 52)"
  by code_simp

lemma double_1_7_minus_tiny: "double_sub double_1_7 (dyadic 15 (- 57)) = double_1_7"
  by code_simp

lemma double_1_7_minus_3_4:
  "double_sub double_1_7 (dyadic 7656119366529843 (- 51)) = dyadic (- 7656119366529843) (- 52)"
  by code_simp

lemma double_1_7_minus_1_7: "double_add double_1_7 (dyadic (- 7656119366529843) (- 52)) = Finite 0"
  by code_simp

lemma rounding_drops:
  "fst (get_relevant_insights
          (table_ops (two_matches (dyadic 7205759403792794 (- 52)) (dyadic 8106479329266893 (- 52))))
          None (Some [''a'', ''b'']) taught_archive) = Inr []"
  unfolding get_relevant_insights_unfold
  by (simp add: taught_archive_def units_insight_def signs_insight_def two_matches_def
      relevance_conversion_threshold_def Let_def table_floats
      double_1_7_minus_1_6 double_1_7_minus_1_8 double_0_1_minus_0_1 double_signs)

lemma rounding_keeps:
  "fst (get_relevant_insights
          (table_ops (two_matches (dyadic 15 (- 57)) (dyadic 7656119366529843 (- 51))))
          None (Some [''a'', ''b'']) taught_archive) = Inr [(''Convert the units first.'', Finite 0)]"
  unfolding get_relevant_insights_unfold
  by (simp add: taught_archive_def units_insight_def signs_insight_def two_matches_def
      relevance_conversion_threshold_def Let_def table_floats
      double_1_7_minus_tiny double_1_7_minus_3_4 double_1_7_minus_1_7 double_signs)

subsection \<open>The mapping that retrieval returns\<close>

text \<open>
  Claim C1. For every call to \<^verbatim>\<open>get_relevant_insights\<close> with a topics list (non-empty
  or not) that returns a mapping: the mapping has each key once, and it is the mapping the
  spec describes. A text is a key exactly when some match returned by the similarity
  queries for the topics resolves to it and its summed relevance is not strictly negative,
  and its value is that summed relevance: the sum of \<open>1.7 - distance\<close> over all matches
  that resolve to it. The matches are those of one query per topic, pooled over all
  topics; matches whose ids differ and whose insights have the same text are pooled too,
  because resolving goes through the text. The numbers are floats: each difference and
  each addition is the interpreter's, the relevances of a text are added in the order of
  the matches, and the test is the interpreter's \<^verbatim>\<open>< 0\<close>. The statement holds for every
  float arithmetic, binary64 being one.
\<close>

theorem relevant_insights_sum:
  assumes "fst (get_relevant_insights ops task (Some tps) s) = Inr r"
  shows "distinct (map fst r)
       \<and> (\<forall>t. map_of r t =
            spec_relevant_insights ops (uid_insight_dict s)
              (query_results ops tps (memo_store s)) t)"
proof -
  let ?uid = "uid_insight_dict s"
  let ?ms = "query_results ops tps (memo_store s)"
  from assms obtain d where d: "aggregate ops ?uid ?ms [] = Inr d"
    and r: "drop_negative ops (map fst d) d = Inr r"
    by (auto simp: get_relevant_insights_unfold split: sum.splits)
  from aggregate_result [OF _ d] have dist: "distinct (map fst d)"
    and agg: "\<forall>t. map_of d t = summed_relevance ops ?uid ?ms t"
    by (simp_all add: summed_relevance_def)
  from drop_negative_keys [OF dist, of ops] r have "distinct (map fst r)"
    and "\<forall>t. map_of r t =
          (case map_of d t of None \<Rightarrow> None
           | Some v \<Rightarrow> if float_lt_0 ops v then None else Some v)"
    by simp_all
  with agg show ?thesis
    by (simp add: spec_relevant_insights_def)
qed

theorem relevant_insights_sum_witness:
  "fst (get_relevant_insights example_ops None (Some [''a'', ''b'']) taught_archive) =
     Inr [(''Convert the units first.'', dyadic 5404319552844595 (- 52))]
   \<and> spec_relevant_insights example_ops (uid_insight_dict taught_archive)
        (query_results example_ops [''a'', ''b''] (memo_store taught_archive))
        ''Convert the units first.'' = Some (dyadic 5404319552844595 (- 52))
   \<and> spec_relevant_insights example_ops (uid_insight_dict taught_archive)
        (query_results example_ops [''a'', ''b''] (memo_store taught_archive))
        ''Check the signs.'' = None"
proof -
  note r = relevant_insights_sum [OF example_relevant]
  from r have "map_of [(''Convert the units first.'', dyadic 5404319552844595 (- 52))]
        ''Convert the units first.'' =
      spec_relevant_insights example_ops (uid_insight_dict taught_archive)
        (query_results example_ops [''a'', ''b''] (memo_store taught_archive))
        ''Convert the units first.''"
    by blast
  moreover from r have "map_of [(''Convert the units first.'', dyadic 5404319552844595 (- 52))]
        ''Check the signs.'' =
      spec_relevant_insights example_ops (uid_insight_dict taught_archive)
        (query_results example_ops [''a'', ''b''] (memo_store taught_archive))
        ''Check the signs.''"
    by blast
  ultimately show ?thesis using example_relevant by simp
qed

text \<open>
  Claim C10. For every call to \<^verbatim>\<open>get_relevant_insights\<close> that reaches the lookup (a
  topics list is given): if every insight id in the matches returned by the similarity
  queries for the topics, one query per topic, is a key of the mapping, no lookup fails and
  the call returns a mapping; if not, the call ends with \<^verbatim>\<open>KeyError\<close> for an id of one
  of those matches that is not a key, and returns no mapping, partial or otherwise.
\<close>

theorem lookup_succeeds_iff_ids_known:
  "((\<forall>m \<in> set (query_results ops tps (memo_store s)).
        fst (snd m) \<in> fst ` set (uid_insight_dict s))
      \<longrightarrow> (\<exists>r. fst (get_relevant_insights ops task (Some tps) s) = Inr r))
   \<and> (\<not> (\<forall>m \<in> set (query_results ops tps (memo_store s)).
        fst (snd m) \<in> fst ` set (uid_insight_dict s))
      \<longrightarrow> (\<exists>k. fst (get_relevant_insights ops task (Some tps) s) = Inl (KeyError k)
             \<and> k \<notin> fst ` set (uid_insight_dict s)
             \<and> k \<in> (\<lambda>m. fst (snd m)) ` set (query_results ops tps (memo_store s))))"
proof (intro conjI impI)
  let ?uid = "uid_insight_dict s"
  let ?ms = "query_results ops tps (memo_store s)"
  assume "\<forall>m \<in> set ?ms. fst (snd m) \<in> fst ` set ?uid"
  from aggregate_defined [OF this] obtain d where d: "aggregate ops ?uid ?ms [] = Inr d"
    by blast
  from aggregate_result [OF _ d] have "distinct (map fst d)" by simp
  from drop_negative_keys [OF this] obtain r where "drop_negative ops (map fst d) d = Inr r"
    by blast
  with d show "\<exists>r. fst (get_relevant_insights ops task (Some tps) s) = Inr r"
    by (simp add: get_relevant_insights_unfold)
next
  let ?uid = "uid_insight_dict s"
  let ?ms = "query_results ops tps (memo_store s)"
  assume "\<not> (\<forall>m \<in> set ?ms. fst (snd m) \<in> fst ` set ?uid)"
  then have "\<exists>m \<in> set ?ms. fst (snd m) \<notin> fst ` set ?uid" by simp
  from aggregate_KeyError [OF this] obtain k where "aggregate ops ?uid ?ms [] = Inl (KeyError k)"
    "k \<notin> fst ` set ?uid" "k \<in> (\<lambda>m. fst (snd m)) ` set ?ms"
    by blast
  then show "\<exists>k. fst (get_relevant_insights ops task (Some tps) s) = Inl (KeyError k)
             \<and> k \<notin> fst ` set ?uid \<and> k \<in> (\<lambda>m. fst (snd m)) ` set ?ms"
    by (simp add: get_relevant_insights_unfold)
qed

theorem lookup_succeeds_iff_ids_known_witness:
  "query_results example_ops [''a''] (memo_store taught_archive) =
     [(''a'', ''1'', dyadic 1 0), (''c'', ''2'', dyadic 1 1)]
   \<and> fst ` set (uid_insight_dict taught_archive) = {''1'', ''2''}
   \<and> (\<exists>r. fst (get_relevant_insights example_ops None (Some [''a'']) taught_archive) = Inr r)
   \<and> query_results example_ops [''a''] (memo_store dangling_archive) =
     [(''a'', ''1'', dyadic 1 0), (''c'', ''7'', dyadic 1 1)]
   \<and> fst ` set (uid_insight_dict dangling_archive) = {''1''}
   \<and> (\<exists>k. fst (get_relevant_insights example_ops None (Some [''a'']) dangling_archive) = Inl (KeyError k)
         \<and> k \<notin> fst ` set (uid_insight_dict dangling_archive)
         \<and> k \<in> (\<lambda>m. fst (snd m)) ` set (query_results example_ops [''a''] (memo_store dangling_archive)))
   \<and> fst (get_relevant_insights example_ops None (Some [''a'']) dangling_archive) = Inl (KeyError ''7'')"
proof -
  have kt: "fst ` set (uid_insight_dict taught_archive) = {''1'', ''2''}"
    by (simp add: taught_archive_def)
  have kd: "fst ` set (uid_insight_dict dangling_archive) = {''1''}"
    by (simp add: dangling_archive_def)
  have a: "\<forall>m \<in> set (query_results example_ops [''a''] (memo_store taught_archive)).
        fst (snd m) \<in> fst ` set (uid_insight_dict taught_archive)"
    unfolding taught_matches kt by simp
  have b: "\<not> (\<forall>m \<in> set (query_results example_ops [''a''] (memo_store dangling_archive)).
        fst (snd m) \<in> fst ` set (uid_insight_dict dangling_archive))"
    unfolding dangling_matches kd by simp
  from lookup_succeeds_iff_ids_known [of example_ops "[''a'']" taught_archive None] a
  have c: "\<exists>r. fst (get_relevant_insights example_ops None (Some [''a'']) taught_archive) = Inr r"
    by blast
  from lookup_succeeds_iff_ids_known [of example_ops "[''a'']" dangling_archive None] b
  have d: "\<exists>k. fst (get_relevant_insights example_ops None (Some [''a'']) dangling_archive) = Inl (KeyError k)
         \<and> k \<notin> fst ` set (uid_insight_dict dangling_archive)
         \<and> k \<in> (\<lambda>m. fst (snd m)) ` set (query_results example_ops [''a''] (memo_store dangling_archive))"
    by blast
  from taught_matches kt c dangling_matches kd d dangling_KeyError show ?thesis
    by (intro conjI)
qed

end
